theory Spec2Isabelle
  imports Main "HOL-Library.Word"
begin

unbundle bit_operations_syntax

section \<open>Fatal assertions\<close>

text \<open>
  Every \<^verbatim>\<open>assert\<close> of the sources aborts the firmware when its condition is false.
  The model returns the assertion that failed as a value; one constructor per assertion
  site (the "tamp compression not yet implemented" sites share one).
\<close>

datatype fatal =
    Assert_prog_alignment
  | Assert_erase_alignment
  | Assert_format
  | Assert_mount
  | Assert_unreachable
  | Assert_tamp_not_implemented
  | Assert_current_time
  | Assert_opencfg
  | Assert_write_size
  | Assert_close
  | Assert_boot_counter_write

section \<open>Constants\<close>

definition LFS_CACHE_SIZE :: nat where
  "LFS_CACHE_SIZE = 256"

definition LFS_LOOKAHEAD_SIZE :: nat where
  "LFS_LOOKAHEAD_SIZE = 16"

definition LFS_NUM_ATTRS :: nat where
  "LFS_NUM_ATTRS = 1"

definition MAX_OPEN_FILES :: nat where
  "MAX_OPEN_FILES = 2"

text \<open>
  The open flags and the error code of littlefs (\<^verbatim>\<open>lfs.h\<close>, an external library that is
  not among the sources): values of littlefs 2.x.
\<close>

definition LFS_O_RDONLY :: "32 word" where
  "LFS_O_RDONLY = 1"

definition LFS_O_WRONLY :: "32 word" where
  "LFS_O_WRONLY = 2"

definition LFS_O_CREAT :: "32 word" where
  "LFS_O_CREAT = 0x0100"

definition LFS_ERR_NOENT :: "32 word" where
  "LFS_ERR_NOENT = - 2"

section \<open>The file handle pool (second, pool-based version of filesystem.c)\<close>

text \<open>
  \<^verbatim>\<open>lfs_file_t\<close> is littlefs's own structure. The model keeps what this code can tell
  about it: all zero bytes after \<^verbatim>\<open>memset\<close>, or filled in by a successful
  \<^verbatim>\<open>lfs_file_opencfg\<close> for a path and flags.
\<close>

datatype lfs_file_t = Lfs_file_zeroed | Lfs_file_opened string "32 word"

text \<open>
  The attribute's \<^verbatim>\<open>buffer\<close> is a pointer: null, or \<^verbatim>\<open>&current_time\<close>, the address of
  the automatic variable of the function that stored the pointer. The pointer carries no
  value: what it points at exists only while that call runs, and the pointer dangles once
  the function has returned.
\<close>

datatype attr_buffer_ptr = Attr_buffer_null | Addr_of_current_time

record lfs_attr =
  attr_type :: "8 word"
  attr_size :: "32 word"
  attr_buffer :: attr_buffer_ptr

text \<open>
  Pointers into the static array \<^verbatim>\<open>file_handles\<close>, by slot index; a cache buffer can
  also be the inactive LCD frame buffer, which the first version uses.
\<close>

datatype buffer_ptr = Buffer_null | Buffer_of_handle nat | Lcd_inactive_buffer

datatype attrs_ptr = Attrs_null | Attrs_of_handle nat

record lfs_file_config =
  config_buffer :: buffer_ptr
  config_attrs :: attrs_ptr
  config_attr_count :: "32 word"

record filesystem_file_handle_t =
  handle_file :: lfs_file_t
  handle_buffer :: "8 word list"
  handle_file_attrs :: "lfs_attr list"
  handle_config :: lfs_file_config

text \<open>
  A \<^verbatim>\<open>filesystem_file_t *\<close>: null, the address of the \<^verbatim>\<open>file\<close> member of slot \<open>i\<close>, or
  the address of some file object outside the pool.
\<close>

datatype file_ptr = NULL | File_of_handle nat | Foreign_file nat

text \<open>
  The three statics of the pool. \<^verbatim>\<open>file_index_using_compression\<close> is an \<^verbatim>\<open>int8_t\<close>: an
  8-bit word read through \<open>sint\<close>; a negative value means the compressor is free.
\<close>

record fs_state =
  file_handles :: "filesystem_file_handle_t list"
  file_handles_used_bitmask :: "8 word"
  file_index_using_compression :: "8 word"

text \<open>
  The numeric fields of \<^verbatim>\<open>struct lfs_config\<close>. The function pointers and the static
  buffers of the structure are the same in every configuration and are left out.
\<close>

record lfs_config =
  read_size :: "32 word"
  prog_size :: "32 word"
  block_size :: "32 word"
  block_count :: "32 word"
  block_cycles :: "32 word"
  cache_size :: "32 word"
  lookahead_size :: "32 word"

text \<open>
  An attribute as littlefs reads it through the configuration at one moment: type, size
  and the four bytes its buffer points at, \<open>None\<close> when the buffer is null or points at a
  variable that does not exist at that moment.
\<close>

record lfs_attr_seen =
  seen_type :: "8 word"
  seen_size :: "32 word"
  seen_value :: "32 word option"

text \<open>
  The calls made into littlefs, with the arguments that matter here: the configuration
  for mount and format; for an open, the path, the flags, the cache buffer and the
  attributes as read through the file configuration during the call; sizes and bytes for
  read and write.
\<close>

datatype lfs_call =
    Lfs_mount lfs_config
  | Lfs_format lfs_config
  | Lfs_file_opencfg string "32 word" buffer_ptr "lfs_attr_seen list"
  | Lfs_file_read "32 word"
  | Lfs_file_write "8 word list" "32 word"
  | Lfs_file_close

text \<open>
  What a function of the pool-based API did: the littlefs calls it made, in order, and
  either the assertion that stopped it or its result.
\<close>

type_synonym 'a traced = "lfs_call list \<times> (fatal + 'a)"

definition then_traced :: "'a traced \<Rightarrow> ('a \<Rightarrow> 'b traced) \<Rightarrow> 'b traced" where
  "then_traced m f =
     (case m of
        (calls, Inl e) \<Rightarrow> (calls, Inl e)
      | (calls, Inr x) \<Rightarrow> (case f x of (calls', r) \<Rightarrow> (calls @ calls', r)))"

definition zeroed_attr :: lfs_attr where
  "zeroed_attr = \<lparr>attr_type = 0, attr_size = 0, attr_buffer = Attr_buffer_null\<rparr>"

definition zeroed_handle :: filesystem_file_handle_t where
  "zeroed_handle =
     \<lparr>handle_file = Lfs_file_zeroed,
      handle_buffer = replicate LFS_CACHE_SIZE 0,
      handle_file_attrs = replicate LFS_NUM_ATTRS zeroed_attr,
      handle_config =
        \<lparr>config_buffer = Buffer_null, config_attrs = Attrs_null, config_attr_count = 0\<rparr>\<rparr>"

text \<open>The statics as C initialises them: zeroed slots, no bit set, owner \<open>-1\<close>.\<close>

definition fs_init :: fs_state where
  "fs_init =
     \<lparr>file_handles = replicate MAX_OPEN_FILES zeroed_handle,
      file_handles_used_bitmask = 0,
      file_index_using_compression = - 1\<rparr>"

text \<open>
  \<^verbatim>\<open>file_is_using_compression\<close>: the loop over the slots, \<open>i\<close> counting up from 0.
  The comparison \<^verbatim>\<open>i == file_index_using_compression\<close> is made on \<^verbatim>\<open>int\<close>.
\<close>

function file_is_using_compression_loop :: "file_ptr \<Rightarrow> nat \<Rightarrow> fs_state \<Rightarrow> bool" where
  "file_is_using_compression_loop file i s =
     (if i < MAX_OPEN_FILES then
        (if file = File_of_handle i \<and> int i = sint (file_index_using_compression s)
         then True
         else file_is_using_compression_loop file (Suc i) s)
      else False)"
  by pat_completeness auto
termination
  by (relation "measure (\<lambda>(file, i, s). MAX_OPEN_FILES - i)") auto

declare file_is_using_compression_loop.simps [simp del]

definition file_is_using_compression :: "file_ptr \<Rightarrow> fs_state \<Rightarrow> bool" where
  "file_is_using_compression file s = file_is_using_compression_loop file 0 s"

text \<open>
  \<^verbatim>\<open>acquire_file_handle\<close>: the result is the slot index of the handle returned, \<open>None\<close>
  for a null pointer. The loop carries \<open>i\<close> and \<^verbatim>\<open>test_bit\<close>; the bit is set before the
  compressor is looked at, and the early \<^verbatim>\<open>return NULL\<close> leaves it set.
\<close>

function acquire_file_handle_loop ::
  "bool \<Rightarrow> nat \<Rightarrow> 8 word \<Rightarrow> fs_state \<Rightarrow> nat option \<times> fs_state" where
  "acquire_file_handle_loop use_compression i test_bit s =
     (if i < MAX_OPEN_FILES then
        (if file_handles_used_bitmask s AND test_bit = 0 then
           (let s1 = s\<lparr>file_handles_used_bitmask := file_handles_used_bitmask s OR test_bit\<rparr>
            in if use_compression then
                 (if 0 \<le> sint (file_index_using_compression s1) then (None, s1)
                  else
                    (let s2 = s1\<lparr>file_index_using_compression := of_nat i\<rparr>
                     in (Some i, s2\<lparr>file_handles := (file_handles s2)[i := zeroed_handle]\<rparr>)))
               else (Some i, s1\<lparr>file_handles := (file_handles s1)[i := zeroed_handle]\<rparr>))
         else acquire_file_handle_loop use_compression (Suc i) (push_bit 1 test_bit) s)
      else (None, s))"
  by pat_completeness auto
termination
  by (relation "measure (\<lambda>(use_compression, i, test_bit, s). MAX_OPEN_FILES - i)") auto

declare acquire_file_handle_loop.simps [simp del]

definition acquire_file_handle :: "bool \<Rightarrow> fs_state \<Rightarrow> nat option \<times> fs_state" where
  "acquire_file_handle use_compression s = acquire_file_handle_loop use_compression 0 1 s"

text \<open>
  \<^verbatim>\<open>release_file_handle\<close>: \<^verbatim>\<open>test_bit\<close> starts at 1 and the loop body never shifts it,
  so the recursive call passes it on unchanged. Falling out of the loop is
  \<^verbatim>\<open>assert(0)\<close>.
\<close>

function release_file_handle_loop ::
  "file_ptr \<Rightarrow> nat \<Rightarrow> 8 word \<Rightarrow> fs_state \<Rightarrow> fatal + fs_state" where
  "release_file_handle_loop file i test_bit s =
     (if i < MAX_OPEN_FILES then
        (if file = File_of_handle i then
           (let s1 = s\<lparr>file_handles_used_bitmask :=
                         file_handles_used_bitmask s AND NOT test_bit\<rparr>
            in if file_is_using_compression file s1
               then Inr (s1\<lparr>file_index_using_compression := - 1\<rparr>)
               else Inr s1)
         else release_file_handle_loop file (Suc i) test_bit s)
      else Inl Assert_unreachable)"
  by pat_completeness auto
termination
  by (relation "measure (\<lambda>(file, i, test_bit, s). MAX_OPEN_FILES - i)") auto

declare release_file_handle_loop.simps [simp del]

definition release_file_handle :: "file_ptr \<Rightarrow> fs_state \<Rightarrow> fatal + fs_state" where
  "release_file_handle file s = release_file_handle_loop file 0 1 s"

section \<open>The public file API (pool-based version)\<close>

text \<open>
  Reading an attribute through its buffer pointer. \<open>current_time\<close> is the value of the
  automatic variable \<^verbatim>\<open>current_time\<close> when a call that owns it is running, and \<open>None\<close>
  when no such call is.
\<close>

definition attr_seen :: "32 word option \<Rightarrow> lfs_attr \<Rightarrow> lfs_attr_seen" where
  "attr_seen current_time a =
     \<lparr>seen_type = attr_type a,
      seen_size = attr_size a,
      seen_value =
        (case attr_buffer a of
           Attr_buffer_null \<Rightarrow> None
         | Addr_of_current_time \<Rightarrow> current_time)\<rparr>"

text \<open>
  The attributes littlefs finds through a file configuration of the pool: the first
  \<^verbatim>\<open>attr_count\<close> entries of the array that \<^verbatim>\<open>attrs\<close> points at; none through a null
  pointer.
\<close>

definition attrs_seen :: "32 word option \<Rightarrow> fs_state \<Rightarrow> lfs_file_config \<Rightarrow> lfs_attr_seen list" where
  "attrs_seen current_time s c =
     (case config_attrs c of
        Attrs_null \<Rightarrow> []
      | Attrs_of_handle j \<Rightarrow>
          if j < length (file_handles s)
          then map (attr_seen current_time)
                 (take (unat (config_attr_count c)) (handle_file_attrs (file_handles s ! j)))
          else [])"

text \<open>
  \<^verbatim>\<open>filesystem_open\<close>. The clock and littlefs are outside the sources: the value that
  \<^verbatim>\<open>GW_GetUnixTime()\<close> returns and the return code of \<^verbatim>\<open>lfs_file_opencfg\<close> are the
  first two arguments. The littlefs call is recorded with what the configuration shows
  while \<^verbatim>\<open>current_time\<close> is alive. The slot keeps the pointer \<^verbatim>\<open>&current_time\<close> after
  the function has returned.
\<close>

definition filesystem_open_traced ::
  "32 word \<Rightarrow> 32 word \<Rightarrow> string \<Rightarrow> bool \<Rightarrow> bool \<Rightarrow> fs_state \<Rightarrow> (file_ptr \<times> fs_state) traced" where
  "filesystem_open_traced GW_GetUnixTime lfs_file_opencfg path write_mode use_compression s =
     (let flags = (if write_mode then LFS_O_WRONLY OR LFS_O_CREAT else LFS_O_RDONLY)
      in case acquire_file_handle use_compression s of
           (None, s1) \<Rightarrow> ([], Inr (NULL, s1))
         | (Some i, s1) \<Rightarrow>
             if use_compression then ([], Inl Assert_tamp_not_implemented)
             else
               (let h = file_handles s1 ! i;
                    h1 = h\<lparr>handle_config :=
                            \<lparr>config_buffer = Buffer_of_handle i,
                             config_attrs = Attrs_of_handle i,
                             config_attr_count = of_nat LFS_NUM_ATTRS\<rparr>\<rparr>;
                    current_time = GW_GetUnixTime
                in if current_time = 0 then ([], Inl Assert_current_time)
                   else
                     (let h2 = h1\<lparr>handle_file_attrs :=
                                   (handle_file_attrs h1)
                                     [0 := \<lparr>attr_type = 0x74, attr_size = 4,
                                            attr_buffer = Addr_of_current_time\<rparr>]\<rparr>;
                          s2 = s1\<lparr>file_handles := (file_handles s1)[i := h2]\<rparr>;
                          opened =
                            Lfs_file_opencfg path flags (config_buffer (handle_config h2))
                              (attrs_seen (Some current_time) s2 (handle_config h2))
                      in if lfs_file_opencfg \<noteq> 0 then ([opened], Inl Assert_opencfg)
                         else
                           ([opened],
                            Inr (File_of_handle i,
                                 s2\<lparr>file_handles :=
                                      (file_handles s2)
                                        [i := h2\<lparr>handle_file := Lfs_file_opened path flags\<rparr>]\<rparr>)))))"

text \<open>A fatal assertion is \<open>Inl\<close>; otherwise the pointer returned and the statics afterwards.\<close>

definition filesystem_open ::
  "32 word \<Rightarrow> 32 word \<Rightarrow> string \<Rightarrow> bool \<Rightarrow> bool \<Rightarrow> fs_state \<Rightarrow> fatal + (file_ptr \<times> fs_state)" where
  "filesystem_open GW_GetUnixTime lfs_file_opencfg path write_mode use_compression s =
     snd (filesystem_open_traced GW_GetUnixTime lfs_file_opencfg path write_mode
            use_compression s)"

text \<open>
  \<^verbatim>\<open>filesystem_write\<close> and \<^verbatim>\<open>filesystem_read\<close>; the first argument is the return value of
  the littlefs call. Neither touches the statics of the pool.
\<close>

definition filesystem_write_traced ::
  "32 word \<Rightarrow> file_ptr \<Rightarrow> 8 word list \<Rightarrow> 32 word \<Rightarrow> fs_state \<Rightarrow> 32 word traced" where
  "filesystem_write_traced lfs_file_write file bytes size' s =
     (if file_is_using_compression file s then ([], Inl Assert_tamp_not_implemented)
      else ([Lfs_file_write bytes size'], Inr lfs_file_write))"

definition filesystem_read_traced ::
  "32 word \<Rightarrow> file_ptr \<Rightarrow> 32 word \<Rightarrow> fs_state \<Rightarrow> 32 word traced" where
  "filesystem_read_traced lfs_file_read file size' s =
     (if file_is_using_compression file s then ([], Inl Assert_tamp_not_implemented)
      else ([Lfs_file_read size'], Inr lfs_file_read))"

text \<open>
  \<^verbatim>\<open>filesystem_close\<close>; the argument \<open>lfs_file_close\<close> is the return code of the
  littlefs call, an \<^verbatim>\<open>int\<close>.
\<close>

definition filesystem_close_traced :: "32 word \<Rightarrow> file_ptr \<Rightarrow> fs_state \<Rightarrow> fs_state traced" where
  "filesystem_close_traced lfs_file_close file s =
     (if file_is_using_compression file s then ([], Inl Assert_tamp_not_implemented)
      else if \<not> (0 \<le> sint lfs_file_close) then ([Lfs_file_close], Inl Assert_close)
      else ([Lfs_file_close], release_file_handle file s))"

definition filesystem_close :: "32 word \<Rightarrow> file_ptr \<Rightarrow> fs_state \<Rightarrow> fatal + fs_state" where
  "filesystem_close lfs_file_close file s = snd (filesystem_close_traced lfs_file_close file s)"

text \<open>
  A caller's script over the public API, run from a state of the pool: every call
  carries the values that the clock and littlefs return during it. The result lists what
  the opens returned, in order, and the statics at the end; a fatal assertion ends the
  run.
\<close>

datatype api_call =
    Call_open "32 word" "32 word" string bool bool
  | Call_close "32 word" file_ptr

fun run_api :: "api_call list \<Rightarrow> fs_state \<Rightarrow> fatal + (file_ptr list \<times> fs_state)" where
  "run_api [] s = Inr ([], s)"
| "run_api (Call_open t rc path write_mode use_compression # calls) s =
     (case filesystem_open t rc path write_mode use_compression s of
        Inl e \<Rightarrow> Inl e
      | Inr (p, s1) \<Rightarrow>
          (case run_api calls s1 of
             Inl e \<Rightarrow> Inl e
           | Inr (ps, s2) \<Rightarrow> Inr (p # ps, s2)))"
| "run_api (Call_close rc file # calls) s =
     (case filesystem_close rc file s of
        Inl e \<Rightarrow> Inl e
      | Inr s1 \<Rightarrow> run_api calls s1)"

text \<open>
  A state of the pool with zeroed slots, given its bitmask and its owner index: the
  concrete states of the evaluations below.
\<close>

definition pool_state :: "8 word \<Rightarrow> 8 word \<Rightarrow> fs_state" where
  "pool_state used_bitmask index_using_compression =
     \<lparr>file_handles = replicate MAX_OPEN_FILES zeroed_handle,
      file_handles_used_bitmask = used_bitmask,
      file_index_using_compression = index_using_compression\<rparr>"


section \<open>The flash block device adapter\<close>

text \<open>
  The hardware calls of the adapter, in the order made. \<^verbatim>\<open>OSPI_Program\<close> carries the
  address, the bytes and the size; \<^verbatim>\<open>OSPI_EraseSync\<close> the address and the size.
\<close>

datatype hw_op =
    SCB_DisableDCache
  | SCB_InvalidateDCache
  | OSPI_DisableMemoryMappedMode
  | OSPI_Program "32 word" "8 word list" "32 word"
  | OSPI_EraseSync "32 word" "32 word"
  | OSPI_EnableMemoryMappedMode
  | SCB_EnableDCache

text \<open>
  Pool-based version: \<^verbatim>\<open>cfg\<close> is not \<^verbatim>\<open>const\<close>; its initialiser leaves
  \<^verbatim>\<open>block_count\<close> out, which C sets to 0.
\<close>

definition cfg :: lfs_config where
  "cfg =
     \<lparr>read_size = of_nat LFS_CACHE_SIZE,
      prog_size = of_nat LFS_CACHE_SIZE,
      block_size = 4096,
      block_count = 0,
      block_cycles = 500,
      cache_size = of_nat LFS_CACHE_SIZE,
      lookahead_size = of_nat LFS_LOOKAHEAD_SIZE\<rparr>"

text \<open>
  \<^verbatim>\<open>littlefs_api_prog\<close> of the pool-based version. \<open>partition_offset\<close> is the pointer
  difference \<^verbatim>\<open>filesystem_partition - &__EXTFLASH_BASE__\<close>, fixed at link time; the
  address is computed in \<^verbatim>\<open>uint32_t\<close>. The assertion comes before every hardware call,
  so a failed assertion has made none.
\<close>

definition littlefs_api_prog ::
  "32 word \<Rightarrow> lfs_config \<Rightarrow> 32 word \<Rightarrow> 32 word \<Rightarrow> 8 word list \<Rightarrow> 32 word
     \<Rightarrow> fatal + (hw_op list \<times> 32 word)" where
  "littlefs_api_prog partition_offset c block off buffer size' =
     (let address = partition_offset + block * block_size c + off
      in if address AND 0xFF \<noteq> 0 then Inl Assert_prog_alignment
         else
           Inr ([SCB_DisableDCache,
                 SCB_InvalidateDCache,
                 OSPI_DisableMemoryMappedMode,
                 OSPI_Program address buffer size',
                 OSPI_EnableMemoryMappedMode,
                 SCB_EnableDCache], 0))"

text \<open>\<^verbatim>\<open>littlefs_api_erase\<close> of the pool-based version.\<close>

definition littlefs_api_erase ::
  "32 word \<Rightarrow> lfs_config \<Rightarrow> 32 word \<Rightarrow> fatal + (hw_op list \<times> 32 word)" where
  "littlefs_api_erase partition_offset c block =
     (let address = partition_offset + block * block_size c
      in if address AND (4 * 1024 - 1) \<noteq> 0 then Inl Assert_erase_alignment
         else
           Inr ([SCB_DisableDCache,
                 SCB_InvalidateDCache,
                 OSPI_DisableMemoryMappedMode,
                 OSPI_EraseSync address (block_size c),
                 OSPI_EnableMemoryMappedMode,
                 SCB_EnableDCache], 0))"

text \<open>
  \<^verbatim>\<open>littlefs_api_prog\<close> of \<^verbatim>\<open>src/Core/Src/filesystem.c\<close>: no assertion and no cache
  calls. \<open>filesystem_start_offset\<close> is \<^verbatim>\<open>&__FILESYSTEM_START__ - &__EXTFLASH_BASE__\<close>.
\<close>

definition core_littlefs_api_prog ::
  "32 word \<Rightarrow> lfs_config \<Rightarrow> 32 word \<Rightarrow> 32 word \<Rightarrow> 8 word list \<Rightarrow> 32 word
     \<Rightarrow> hw_op list \<times> 32 word" where
  "core_littlefs_api_prog filesystem_start_offset c block off buffer size' =
     (let address = filesystem_start_offset + block * block_size c + off
      in ([OSPI_DisableMemoryMappedMode,
           OSPI_Program address buffer size',
           OSPI_EnableMemoryMappedMode], 0))"

text \<open>
  The sequence the specification calls hazard-free, for a program of \<open>size'\<close> bytes at
  \<open>address\<close>.
\<close>

definition hazard_free_sequence :: "32 word \<Rightarrow> 8 word list \<Rightarrow> 32 word \<Rightarrow> hw_op list" where
  "hazard_free_sequence address buffer size' =
     [SCB_DisableDCache,
      SCB_InvalidateDCache,
      OSPI_DisableMemoryMappedMode,
      OSPI_Program address buffer size',
      OSPI_EnableMemoryMappedMode,
      SCB_EnableDCache]"

text \<open>
  Whether a sequence of hardware calls, started with memory-mapped mode on or off
  (\<open>mapped\<close>), issues a program command while the mode is on.
\<close>

fun program_while_mapped :: "bool \<Rightarrow> hw_op list \<Rightarrow> bool" where
  "program_while_mapped mapped [] = False"
| "program_while_mapped mapped (OSPI_DisableMemoryMappedMode # ops) =
     program_while_mapped False ops"
| "program_while_mapped mapped (OSPI_EnableMemoryMappedMode # ops) =
     program_while_mapped True ops"
| "program_while_mapped mapped (OSPI_Program address buffer size' # ops) =
     (mapped \<or> program_while_mapped mapped ops)"
| "program_while_mapped mapped (_ # ops) = program_while_mapped mapped ops"

section \<open>Mounting\<close>

text \<open>
  Modelled from the spec: \<^verbatim>\<open>filesystem.h\<close>, which defines \<^verbatim>\<open>FILESYSTEM_READ\<close>,
  \<^verbatim>\<open>FILESYSTEM_WRITE\<close> and \<^verbatim>\<open>FILESYSTEM_RAW\<close>, is not among the sources. They are passed
  for the parameters \<^verbatim>\<open>write_mode\<close> and \<^verbatim>\<open>use_compression\<close>; by the specification,
  write mode selects create-or-write against must-exist read-only, and by their names
  they stand for reading, writing and no compression.
\<close>

definition FILESYSTEM_READ :: bool where
  "FILESYSTEM_READ = False"

definition FILESYSTEM_WRITE :: bool where
  "FILESYSTEM_WRITE = True"

definition FILESYSTEM_RAW :: bool where
  "FILESYSTEM_RAW = False"

text \<open>
  What the clock and littlefs answer during one run of \<^verbatim>\<open>boot_counter\<close>: for the
  read-mode open, the read (its return value, and the value \<^verbatim>\<open>boot_count\<close> holds after
  it) and the first close; then for the write-mode open, the write and the second close.
\<close>

record boot_counter_answers =
  first_open_time :: "32 word"
  first_open_rc :: "32 word"
  read_result :: "32 word"
  boot_count_read :: "32 word"
  first_close_rc :: "32 word"
  second_open_time :: "32 word"
  second_open_rc :: "32 word"
  write_result :: "32 word"
  second_close_rc :: "32 word"

text \<open>The four bytes of a \<^verbatim>\<open>uint32_t\<close> in memory, on the little-endian target.\<close>

definition bytes_of_uint32 :: "32 word \<Rightarrow> 8 word list" where
  "bytes_of_uint32 w =
     [ucast w, ucast (drop_bit 8 w), ucast (drop_bit 16 w), ucast (drop_bit 24 w)]"

text \<open>
  \<^verbatim>\<open>boot_counter\<close>: the return value of \<^verbatim>\<open>filesystem_read\<close> is ignored;
  \<^verbatim>\<open>sizeof(boot_count) == filesystem_write(...)\<close> compares as 32-bit words; the
  \<^verbatim>\<open>printf\<close> is left out. The pointer an open returns is passed on unchecked, a null
  one too; what littlefs does with it is outside the sources, and its return value is
  taken like any other.
\<close>

definition boot_counter :: "boot_counter_answers \<Rightarrow> fs_state \<Rightarrow> fs_state traced" where
  "boot_counter a s =
     then_traced
       (filesystem_open_traced (first_open_time a) (first_open_rc a) ''boot_counter''
          FILESYSTEM_READ FILESYSTEM_RAW s)
       (\<lambda>(file, s1).
          then_traced (filesystem_read_traced (read_result a) file 4 s1)
            (\<lambda>_.
               then_traced (filesystem_close_traced (first_close_rc a) file s1)
                 (\<lambda>s2.
                    let boot_count = boot_count_read a + 1
                    in then_traced
                         (filesystem_open_traced (second_open_time a) (second_open_rc a)
                            ''boot_counter'' FILESYSTEM_WRITE FILESYSTEM_RAW s2)
                         (\<lambda>(file, s3).
                            then_traced
                              (filesystem_write_traced (write_result a) file
                                 (bytes_of_uint32 boot_count) 4 s3)
                              (\<lambda>written.
                                 if 4 \<noteq> written then ([], Inl Assert_boot_counter_write)
                                 else filesystem_close_traced (second_close_rc a) file s3)))))"

text \<open>
  \<^verbatim>\<open>filesystem_init\<close> of the pool-based version. \<open>filesystem_end\<close> and
  \<open>filesystem_start\<close> are the addresses of the linker symbols \<^verbatim>\<open>__FILESYSTEM_END__\<close> and
  \<^verbatim>\<open>__FILESYSTEM_START__\<close>, which the other uses of such symbols in the sources fix as
  byte-sized objects: their difference is a 32-bit \<^verbatim>\<open>ptrdiff_t\<close> counted in bytes,
  shifted right arithmetically. The next three arguments are the return codes of the
  first mount, the format and the second mount; then the answers for \<^verbatim>\<open>boot_counter\<close>
  and the statics of the pool.
\<close>

definition filesystem_init ::
  "32 word \<Rightarrow> 32 word \<Rightarrow> 32 word \<Rightarrow> 32 word \<Rightarrow> 32 word \<Rightarrow> boot_counter_answers \<Rightarrow> fs_state
     \<Rightarrow> fs_state traced" where
  "filesystem_init filesystem_end filesystem_start mount_rc format_rc remount_rc a s =
     (let c = cfg\<lparr>block_count := signed_drop_bit 12 (filesystem_end - filesystem_start)\<rparr>
      in if mount_rc \<noteq> 0 then
           (if format_rc \<noteq> 0 then ([Lfs_mount c, Lfs_format c], Inl Assert_format)
            else if remount_rc \<noteq> 0
              then ([Lfs_mount c, Lfs_format c, Lfs_mount c], Inl Assert_mount)
              else then_traced ([Lfs_mount c, Lfs_format c, Lfs_mount c], Inr ())
                     (\<lambda>_. boot_counter a s))
         else then_traced ([Lfs_mount c], Inr ()) (\<lambda>_. boot_counter a s))"

section \<open>The first version: src/Core/Src/filesystem.c\<close>

text \<open>The \<^verbatim>\<open>const\<close> configuration, with its literal block count.\<close>

definition core_cfg :: lfs_config where
  "core_cfg =
     \<lparr>read_size = of_nat LFS_CACHE_SIZE,
      prog_size = of_nat LFS_CACHE_SIZE,
      block_size = 4096,
      block_count = 256,
      block_cycles = 500,
      cache_size = of_nat LFS_CACHE_SIZE,
      lookahead_size = of_nat LFS_LOOKAHEAD_SIZE\<rparr>"

definition core_filesystem_init ::
  "32 word \<Rightarrow> 32 word \<Rightarrow> 32 word \<Rightarrow> lfs_call list \<times> fatal option" where
  "core_filesystem_init mount_rc format_rc remount_rc =
     (if mount_rc \<noteq> 0 then
        (if format_rc \<noteq> 0 then ([Lfs_mount core_cfg, Lfs_format core_cfg], Some Assert_format)
         else if remount_rc \<noteq> 0
           then ([Lfs_mount core_cfg, Lfs_format core_cfg, Lfs_mount core_cfg], Some Assert_mount)
           else ([Lfs_mount core_cfg, Lfs_format core_cfg, Lfs_mount core_cfg], None))
      else ([Lfs_mount core_cfg], None))"

text \<open>
  \<^verbatim>\<open>filesystem_write\<close> of this version: open, write and close in one call, each under an
  assertion. The first four arguments are the clock's value and the return codes of the
  three littlefs calls. \<^verbatim>\<open>size == lfs_file_write(...)\<close> compares a \<^verbatim>\<open>size_t\<close> with an
  \<^verbatim>\<open>int32_t\<close>, that is, as 32-bit words. The last assertion is
  \<^verbatim>\<open>assert(lfs_file_close(&lfs, &file))\<close>: it holds when the return code is not 0.
  The file configuration and the attribute array are locals; the cache buffer is the
  inactive LCD frame buffer; \<^verbatim>\<open>current_time\<close> is alive during all three littlefs calls.
\<close>

definition core_filesystem_write ::
  "32 word \<Rightarrow> 32 word \<Rightarrow> 32 word \<Rightarrow> 32 word \<Rightarrow> string \<Rightarrow> 8 word list \<Rightarrow> 32 word
     \<Rightarrow> lfs_call list \<times> fatal option" where
  "core_filesystem_write GW_GetUnixTime lfs_file_opencfg lfs_file_write lfs_file_close
       path bytes size' =
     (let flags = LFS_O_WRONLY OR LFS_O_CREAT;
          file_attrs = replicate LFS_NUM_ATTRS zeroed_attr;
          attr_count = (of_nat LFS_NUM_ATTRS :: 32 word);
          current_time = GW_GetUnixTime
      in if current_time = 0 then ([], Some Assert_current_time)
         else
           (let file_attrs1 =
                  file_attrs[0 := \<lparr>attr_type = 0x74, attr_size = 4,
                                   attr_buffer = Addr_of_current_time\<rparr>];
                opened =
                  Lfs_file_opencfg path flags Lcd_inactive_buffer
                    (map (attr_seen (Some current_time)) (take (unat attr_count) file_attrs1))
            in if lfs_file_opencfg \<noteq> 0 then ([opened], Some Assert_opencfg)
               else if size' \<noteq> lfs_file_write
                 then ([opened, Lfs_file_write bytes size'], Some Assert_write_size)
               else if lfs_file_close = 0
                 then ([opened, Lfs_file_write bytes size', Lfs_file_close], Some Assert_close)
               else ([opened, Lfs_file_write bytes size', Lfs_file_close], None)))"

text \<open>
  The littlefs calls on an open file, as opposed to mount and format.
\<close>

definition file_level :: "lfs_call \<Rightarrow> bool" where
  "file_level call \<longleftrightarrow>
     (case call of Lfs_mount c \<Rightarrow> False | Lfs_format c \<Rightarrow> False | _ \<Rightarrow> True)"

section \<open>The loops, unrolled for two slots\<close>

lemma and_4095_iff: "(x :: 32 word) AND 4095 = 0 \<longleftrightarrow> unat x mod 4096 = 0"
proof -
  have "2 ^ 12 dvd unat x \<longleftrightarrow> x AND mask 12 = 0"
    by (rule and_mask_dvd_nat)
  moreover have "(mask 12 :: 32 word) = 4095"
    by (simp add: mask_eq_exp_minus_1)
  ultimately show ?thesis
    by (simp add: dvd_eq_mod_eq_0)
qed

lemma acquire_file_handle_unfold:
  "acquire_file_handle c s =
     (if file_handles_used_bitmask s AND 1 = 0 then
        (if c then
           (if 0 \<le> sint (file_index_using_compression s)
            then (None, s\<lparr>file_handles_used_bitmask := file_handles_used_bitmask s OR 1\<rparr>)
            else (Some 0, s\<lparr>file_handles_used_bitmask := file_handles_used_bitmask s OR 1,
                             file_index_using_compression := 0,
                             file_handles := (file_handles s)[0 := zeroed_handle]\<rparr>))
         else (Some 0, s\<lparr>file_handles_used_bitmask := file_handles_used_bitmask s OR 1,
                          file_handles := (file_handles s)[0 := zeroed_handle]\<rparr>))
      else if file_handles_used_bitmask s AND 2 = 0 then
        (if c then
           (if 0 \<le> sint (file_index_using_compression s)
            then (None, s\<lparr>file_handles_used_bitmask := file_handles_used_bitmask s OR 2\<rparr>)
            else (Some 1, s\<lparr>file_handles_used_bitmask := file_handles_used_bitmask s OR 2,
                             file_index_using_compression := 1,
                             file_handles := (file_handles s)[1 := zeroed_handle]\<rparr>))
         else (Some 1, s\<lparr>file_handles_used_bitmask := file_handles_used_bitmask s OR 2,
                          file_handles := (file_handles s)[1 := zeroed_handle]\<rparr>))
      else (None, s))"
  by (simp add: acquire_file_handle_def acquire_file_handle_loop.simps [of _ 0]
      acquire_file_handle_loop.simps [of _ "Suc 0"]
      acquire_file_handle_loop.simps [of _ "Suc (Suc 0)"] MAX_OPEN_FILES_def Let_def)

lemma file_is_using_compression_unfold:
  "file_is_using_compression file s \<longleftrightarrow>
     file = File_of_handle 0 \<and> sint (file_index_using_compression s) = 0
     \<or> file = File_of_handle 1 \<and> sint (file_index_using_compression s) = 1"
  by (auto simp add: file_is_using_compression_def
      file_is_using_compression_loop.simps [of _ 0]
      file_is_using_compression_loop.simps [of _ "Suc 0"]
      file_is_using_compression_loop.simps [of _ "Suc (Suc 0)"] MAX_OPEN_FILES_def)

text \<open>Both slots clear the same bit, the lowest one: the mask is never shifted.\<close>

lemma release_file_handle_unfold:
  "release_file_handle file s =
     (if file = File_of_handle 0 \<or> file = File_of_handle 1 then
        (if file_is_using_compression file s
         then Inr (s\<lparr>file_handles_used_bitmask := file_handles_used_bitmask s AND NOT 1,
                     file_index_using_compression := - 1\<rparr>)
         else Inr (s\<lparr>file_handles_used_bitmask := file_handles_used_bitmask s AND NOT 1\<rparr>))
      else Inl Assert_unreachable)"
  by (simp add: release_file_handle_def release_file_handle_loop.simps [of _ 0]
      release_file_handle_loop.simps [of _ "Suc 0"]
      release_file_handle_loop.simps [of _ "Suc (Suc 0)"] MAX_OPEN_FILES_def Let_def
      file_is_using_compression_unfold)

section \<open>No compression owner through the API\<close>








section \<open>The littlefs calls of the API functions\<close>

lemma then_traced_calls:
  "x \<in> set (fst (then_traced m f)) \<Longrightarrow> x \<in> set (fst m) \<or> (\<exists>y. x \<in> set (fst (f y)))"
proof (cases m)
  case (Pair calls r)
  assume x: "x \<in> set (fst (then_traced m f))"
  show ?thesis
  proof (cases r)
    case (Inl e)
    with Pair x show ?thesis by (simp add: then_traced_def)
  next
    case (Inr y)
    with Pair x have "x \<in> set calls \<or> x \<in> set (fst (f y))"
      by (auto simp add: then_traced_def split: prod.splits)
    with Pair show ?thesis by auto
  qed
qed

lemma open_calls_file_level:
  "x \<in> set (fst (filesystem_open_traced t rc path w c s)) \<Longrightarrow> file_level x"
  by (auto simp add: filesystem_open_traced_def file_level_def Let_def
      split: prod.splits option.splits if_splits)

lemma read_calls_file_level:
  "x \<in> set (fst (filesystem_read_traced rc f n s)) \<Longrightarrow> file_level x"
  by (auto simp add: filesystem_read_traced_def file_level_def split: if_splits)

lemma write_calls_file_level:
  "x \<in> set (fst (filesystem_write_traced rc f b n s)) \<Longrightarrow> file_level x"
  by (auto simp add: filesystem_write_traced_def file_level_def split: if_splits)

lemma close_calls_file_level:
  "x \<in> set (fst (filesystem_close_traced rc f s)) \<Longrightarrow> file_level x"
  by (auto simp add: filesystem_close_traced_def file_level_def split: if_splits)

lemma boot_counter_calls_file_level:
  assumes "x \<in> set (fst (boot_counter a s))"
  shows "file_level x"
  using assms unfolding boot_counter_def Let_def
  by (auto dest!: then_traced_calls
      dest: open_calls_file_level read_calls_file_level write_calls_file_level
        close_calls_file_level
      split: if_splits)

section \<open>The pool and the compressor\<close>




text \<open>
  C2. Releasing a tracked handle should clear the bit of its own slot and no other. With
  both slots taken (bitmask 3), releasing the handle of slot 1 leaves bitmask 2: bit 0,
  which belongs to slot 0, is cleared, and bit 1 stays set.
\<close>

theorem release_second_slot_clears_first_bit:
  "acquire_file_handle False fs_init = (Some 0, pool_state 1 (- 1))
   \<and> acquire_file_handle False (pool_state 1 (- 1)) = (Some 1, pool_state 3 (- 1))
   \<and> release_file_handle (File_of_handle 1) (pool_state 3 (- 1)) = Inr (pool_state 2 (- 1))"
  by code_simp

text \<open>
  C3. Within the capacity of two open handles, an open should never fail for want of a
  slot. The script below opens two files, closes both, and opens two again; the clock
  and littlefs report success throughout. Both closes clear bit 0, so bit 1 stays set
  after them: the third open gets slot 0, and the fourth, made with one handle open,
  returns \<^verbatim>\<open>NULL\<close> (compression is not requested, so the only \<^verbatim>\<open>NULL\<close> is the one
  after the loop).
\<close>

theorem open_fails_within_capacity:
  "map_sum id (\<lambda>(ps, s). (ps, file_handles_used_bitmask s))
     (run_api
        [Call_open 1 0 ''a'' True False,
         Call_open 1 0 ''b'' True False,
         Call_close 0 (File_of_handle 0),
         Call_close 0 (File_of_handle 1),
         Call_open 1 0 ''c'' True False,
         Call_open 1 0 ''d'' True False]
        fs_init)
   = Inr ([File_of_handle 0, File_of_handle 1, File_of_handle 0, NULL], 3)"
  by code_simp




section \<open>Opening\<close>

text \<open>
  C5. A read-mode open of a missing path should hand a failure back to the caller, as the
  comment above \<^verbatim>\<open>filesystem_open\<close> says (returning \<^verbatim>\<open>NULL\<close>). With the clock set and
  littlefs answering \<^verbatim>\<open>LFS_ERR_NOENT\<close>, the call fails the assertion around
  \<^verbatim>\<open>lfs_file_opencfg\<close> instead.
\<close>

theorem open_missing_path_aborts:
  "filesystem_open 1 LFS_ERR_NOENT ''missing'' False False fs_init = Inl Assert_opencfg"
  by code_simp

text \<open>
  C8. Every opened file should carry a timestamp attribute of type \<open>0x74\<close> (the character
  t), size 4, whose value is the non-zero clock value of the open. With the clock at
  1700000000, \<^verbatim>\<open>filesystem_open\<close> hands littlefs that attribute during the call: the
  configuration points at the slot's attribute array, with one attribute whose buffer is
  \<^verbatim>\<open>&current_time\<close>. The pointer stays in the static slot, and \<^verbatim>\<open>current_time\<close> is an
  automatic variable of \<^verbatim>\<open>filesystem_open\<close>: once the call has returned, the opened
  file's attribute has its type and size but no value behind its buffer.
\<close>

theorem open_timestamp_dangles:
  "fst (filesystem_open_traced 1700000000 0 ''save'' True False fs_init) =
     [Lfs_file_opencfg ''save'' 0x102 (Buffer_of_handle 0)
        [\<lparr>seen_type = 0x74, seen_size = 4, seen_value = Some 1700000000\<rparr>]]
   \<and> map_sum id
        (\<lambda>(p, s). (p, handle_config (file_handles s ! 0),
                   handle_file_attrs (file_handles s ! 0),
                   attrs_seen None s (handle_config (file_handles s ! 0))))
        (filesystem_open 1700000000 0 ''save'' True False fs_init) =
      Inr (File_of_handle 0,
           \<lparr>config_buffer = Buffer_of_handle 0, config_attrs = Attrs_of_handle 0,
            config_attr_count = 1\<rparr>,
           [\<lparr>attr_type = 0x74, attr_size = 4, attr_buffer = Addr_of_current_time\<rparr>],
           [\<lparr>seen_type = 0x74, seen_size = 4, seen_value = None\<rparr>])"
  by code_simp

text \<open>
  The same in general, for any successful open on a pool of two slots: the clock value is
  not 0, the one littlefs call is the open with the slot's buffer and the timestamp
  attribute holding the clock value, and afterwards the slot's configuration still points
  at the attribute, whose value is gone.
\<close>

lemma acquire_index_bound:
  "acquire_file_handle c s = (Some i, s1) \<Longrightarrow>
   i < MAX_OPEN_FILES \<and> length (file_handles s1) = length (file_handles s)
   \<and> (i < length (file_handles s) \<longrightarrow> file_handles s1 ! i = zeroed_handle)"
  by (auto simp add: acquire_file_handle_unfold MAX_OPEN_FILES_def split: if_splits)

theorem open_hands_over_timestamp:
  assumes len: "length (file_handles s) = MAX_OPEN_FILES"
    and op: "filesystem_open_traced t rc path write_mode use_compression s
        = (calls, Inr (File_of_handle i, s'))"
  shows "t \<noteq> 0 \<and> i < MAX_OPEN_FILES
    \<and> calls =
        [Lfs_file_opencfg path
           (if write_mode then LFS_O_WRONLY OR LFS_O_CREAT else LFS_O_RDONLY)
           (Buffer_of_handle i)
           [\<lparr>seen_type = 0x74, seen_size = 4, seen_value = Some t\<rparr>]]
    \<and> handle_config (file_handles s' ! i) =
        \<lparr>config_buffer = Buffer_of_handle i, config_attrs = Attrs_of_handle i,
         config_attr_count = 1\<rparr>
    \<and> handle_file_attrs (file_handles s' ! i) =
        [\<lparr>attr_type = 0x74, attr_size = 4, attr_buffer = Addr_of_current_time\<rparr>]
    \<and> attrs_seen None s' (handle_config (file_handles s' ! i)) =
        [\<lparr>seen_type = 0x74, seen_size = 4, seen_value = None\<rparr>]"
proof (cases "acquire_file_handle use_compression s")
  case (Pair r s1)
  show ?thesis
  proof (cases r)
    case None
    with Pair op show ?thesis by (simp add: filesystem_open_traced_def)
  next
    case (Some k)
    with Pair have acq: "acquire_file_handle use_compression s = (Some k, s1)" by simp
    from acquire_index_bound [OF acq] len
    have k: "k < MAX_OPEN_FILES" and l1: "k < length (file_handles s1)"
      and z: "file_handles s1 ! k = zeroed_handle"
      by simp_all
    from op acq have ik: "i = k" and t: "t \<noteq> 0" and nc: "\<not> use_compression" and rc: "rc = 0"
      by (auto simp add: filesystem_open_traced_def Let_def split: if_splits)
    from op acq l1 z t nc rc have
      "calls =
        [Lfs_file_opencfg path
           (if write_mode then LFS_O_WRONLY OR LFS_O_CREAT else LFS_O_RDONLY)
           (Buffer_of_handle k)
           [\<lparr>seen_type = 0x74, seen_size = 4, seen_value = Some t\<rparr>]]"
      by (auto simp add: filesystem_open_traced_def Let_def zeroed_handle_def LFS_NUM_ATTRS_def
          attrs_seen_def attr_seen_def)
    moreover from op acq l1 z t nc rc have
      "handle_config (file_handles s' ! k) =
        \<lparr>config_buffer = Buffer_of_handle k, config_attrs = Attrs_of_handle k,
         config_attr_count = 1\<rparr>
       \<and> handle_file_attrs (file_handles s' ! k) =
        [\<lparr>attr_type = 0x74, attr_size = 4, attr_buffer = Addr_of_current_time\<rparr>]
       \<and> length (file_handles s') = length (file_handles s1)"
      by (auto simp add: filesystem_open_traced_def Let_def zeroed_handle_def LFS_NUM_ATTRS_def)
    ultimately show ?thesis
      using ik k t l1 by (simp add: attrs_seen_def attr_seen_def)
  qed
qed

theorem open_hands_over_timestamp_witness:
  "length (file_handles fs_init) = MAX_OPEN_FILES
   \<and> (\<exists>calls s'. filesystem_open_traced 5 0 ''save'' False False fs_init
          = (calls, Inr (File_of_handle 0, s'))
        \<and> calls = [Lfs_file_opencfg ''save'' LFS_O_RDONLY (Buffer_of_handle 0)
                     [\<lparr>seen_type = 0x74, seen_size = 4, seen_value = Some 5\<rparr>]]
        \<and> attrs_seen None s' (handle_config (file_handles s' ! 0)) =
            [\<lparr>seen_type = 0x74, seen_size = 4, seen_value = None\<rparr>])"
proof -
  have len: "length (file_handles fs_init) = MAX_OPEN_FILES"
    by (simp add: fs_init_def)
  have "map_sum id fst (snd (filesystem_open_traced 5 0 ''save'' False False fs_init))
      = Inr (File_of_handle 0)"
    by code_simp
  then obtain calls s' where
    op: "filesystem_open_traced 5 0 ''save'' False False fs_init
       = (calls, Inr (File_of_handle 0, s'))"
    by (cases "filesystem_open_traced 5 0 ''save'' False False fs_init";
        cases "snd (filesystem_open_traced 5 0 ''save'' False False fs_init)") auto
  from open_hands_over_timestamp [OF len op] op len show ?thesis
    by auto
qed

text \<open>
  When a slot is free and the clock says 0, the open stops at the clock assertion before
  any littlefs call.
\<close>

theorem zero_clock_aborts:
  "fst (acquire_file_handle False s) \<noteq> None \<longrightarrow>
     filesystem_open_traced 0 rc path write_mode False s = ([], Inl Assert_current_time)"
  by (auto simp add: filesystem_open_traced_def Let_def split: prod.splits option.splits)

text \<open>
  \<^verbatim>\<open>filesystem_write\<close> of \<^verbatim>\<open>src/Core/Src/filesystem.c\<close> hands over the same attribute, and
  there \<^verbatim>\<open>current_time\<close> lives until the close has been made; a clock at 0 stops it
  before any littlefs call.
\<close>

theorem core_write_hands_over_timestamp:
  "(Lfs_file_opencfg path' flags buffer attrs
      \<in> set (fst (core_filesystem_write t rc write_rc close_rc path bytes n)) \<longrightarrow>
    t \<noteq> 0 \<and> buffer = Lcd_inactive_buffer
    \<and> attrs = [\<lparr>seen_type = 0x74, seen_size = 4, seen_value = Some t\<rparr>])
   \<and> core_filesystem_write 0 rc write_rc close_rc path bytes n = ([], Some Assert_current_time)"
  by (auto simp add: core_filesystem_write_def Let_def LFS_NUM_ATTRS_def attr_seen_def
      split: if_splits)

section \<open>Geometry\<close>

text \<open>
  C6. The block count given to littlefs at mount should come from the size of the
  reserved region. \<^verbatim>\<open>filesystem_init\<close> of \<^verbatim>\<open>src/Core/Src/filesystem.c\<close> mounts with its
  \<^verbatim>\<open>const\<close> configuration, whose block count is the literal 256 (beside it, the comment
  asks how to make it depend on the region's length). For a region of 2 MiB the
  pool-based version mounts with 512 blocks, and goes on to \<^verbatim>\<open>boot_counter\<close>; the first
  version mounts with 256 whatever the region is.
\<close>

theorem core_block_count_literal:
  "core_filesystem_init 0 0 0 = ([Lfs_mount core_cfg], None)
   \<and> block_count core_cfg = 256
   \<and> fst (filesystem_init 0x90300000 0x90100000 0 0 0
        \<lparr>first_open_time = 1, first_open_rc = 0, read_result = 4, boot_count_read = 7,
         first_close_rc = 0, second_open_time = 1, second_open_rc = 0, write_result = 4,
         second_close_rc = 0\<rparr> fs_init) =
      [Lfs_mount (cfg\<lparr>block_count := 512\<rparr>),
       Lfs_file_opencfg ''boot_counter'' 1 (Buffer_of_handle 0)
         [\<lparr>seen_type = 0x74, seen_size = 4, seen_value = Some 1\<rparr>],
       Lfs_file_read 4,
       Lfs_file_close,
       Lfs_file_opencfg ''boot_counter'' 0x102 (Buffer_of_handle 0)
         [\<lparr>seen_type = 0x74, seen_size = 4, seen_value = Some 1\<rparr>],
       Lfs_file_write [8, 0, 0, 0] 4,
       Lfs_file_close]
   \<and> map_sum id file_handles_used_bitmask
        (snd (filesystem_init 0x90300000 0x90100000 0 0 0
           \<lparr>first_open_time = 1, first_open_rc = 0, read_result = 4, boot_count_read = 7,
            first_close_rc = 0, second_open_time = 1, second_open_rc = 0, write_result = 4,
            second_close_rc = 0\<rparr> fs_init)) = Inr 0"
  by code_simp

section \<open>The block device adapter\<close>

text \<open>
  C7. \<^verbatim>\<open>littlefs_api_erase\<close> (pool-based version) fails its alignment assertion exactly
  when the address it computes is not a multiple of 4096, before any hardware call. When
  the address is a multiple of 4096 it issues one erase, at that very address, inside the
  cache and memory-mapping bracket. So every erase it issues is at the computed address
  and that address is a multiple of 4096.
\<close>

theorem erase_address_block_aligned:
  "(littlefs_api_erase partition_offset c block = Inl Assert_erase_alignment
      \<longleftrightarrow> unat (partition_offset + block * block_size c) mod 4096 \<noteq> 0)
   \<and> (unat (partition_offset + block * block_size c) mod 4096 = 0 \<longrightarrow>
        littlefs_api_erase partition_offset c block =
          Inr ([SCB_DisableDCache, SCB_InvalidateDCache, OSPI_DisableMemoryMappedMode,
                OSPI_EraseSync (partition_offset + block * block_size c) (block_size c),
                OSPI_EnableMemoryMappedMode, SCB_EnableDCache], 0))
   \<and> (littlefs_api_erase partition_offset c block = Inr (ops, r)
        \<and> OSPI_EraseSync a n \<in> set ops \<longrightarrow>
        a = partition_offset + block * block_size c \<and> unat a mod 4096 = 0)"
  by (auto simp add: littlefs_api_erase_def Let_def and_4095_iff)

text \<open>
  With the partition at offset \<open>0x100\<close> the erase of block 0 is rejected; at offset
  \<open>0x100000\<close> the erase of block 3 goes to \<open>0x103000\<close>.
\<close>

theorem erase_address_block_aligned_witness:
  "unat ((0x100 :: 32 word) + 0 * block_size cfg) mod 4096 \<noteq> 0
   \<and> littlefs_api_erase 0x100 cfg 0 = Inl Assert_erase_alignment
   \<and> unat ((0x100000 :: 32 word) + 3 * block_size cfg) mod 4096 = 0
   \<and> littlefs_api_erase 0x100000 cfg 3 =
        Inr ([SCB_DisableDCache, SCB_InvalidateDCache, OSPI_DisableMemoryMappedMode,
              OSPI_EraseSync 0x103000 4096,
              OSPI_EnableMemoryMappedMode, SCB_EnableDCache], 0)"
proof -
  have bad: "unat ((0x100 :: 32 word) + 0 * block_size cfg) mod 4096 \<noteq> 0"
    by (simp add: cfg_def)
  have good: "unat ((0x100000 :: 32 word) + 3 * block_size cfg) mod 4096 = 0"
    by (simp add: cfg_def)
  have addr: "(0x100000 :: 32 word) + 3 * block_size cfg = 0x103000"
    by (simp add: cfg_def)
  have bs: "block_size cfg = 4096"
    by (simp add: cfg_def)
  show ?thesis
    using erase_address_block_aligned [of "0x100" cfg 0 "[]" 0 0 0]
      erase_address_block_aligned [of "0x100000" cfg 3 "[]" 0 0 0] bad good addr bs
    by simp
qed

text \<open>
  The two versions of \<^verbatim>\<open>littlefs_api_prog\<close>, call by call. The pool-based one either
  fails its alignment assertion (address not a multiple of 256) before any hardware call,
  or makes exactly the six calls of the hazard-free sequence, in order, programming at the
  computed address. The one of \<^verbatim>\<open>src/Core/Src/filesystem.c\<close> makes three calls: leave
  memory-mapped mode, program, enter memory-mapped mode. Neither issues the program
  command while memory-mapped mode is on, whatever the mode was before.
\<close>

theorem prog_sequences:
  "littlefs_api_prog partition_offset c block off buffer n =
     (if (partition_offset + block * block_size c + off) AND 0xFF = 0
      then Inr (hazard_free_sequence (partition_offset + block * block_size c + off) buffer n, 0)
      else Inl Assert_prog_alignment)
   \<and> core_littlefs_api_prog filesystem_start_offset c block off buffer n =
       ([OSPI_DisableMemoryMappedMode,
         OSPI_Program (filesystem_start_offset + block * block_size c + off) buffer n,
         OSPI_EnableMemoryMappedMode], 0)
   \<and> \<not> program_while_mapped mapped (hazard_free_sequence address buffer n)
   \<and> \<not> program_while_mapped mapped
          (fst (core_littlefs_api_prog filesystem_start_offset c block off buffer n))"
  by (simp add: littlefs_api_prog_def core_littlefs_api_prog_def hazard_free_sequence_def Let_def)

text \<open>
  C9. Every program operation should disable and invalidate the data cache before it
  leaves memory-mapped mode, and enable the cache again at the end. The program of two
  bytes at block 1 through \<^verbatim>\<open>littlefs_api_prog\<close> of \<^verbatim>\<open>src/Core/Src/filesystem.c\<close> makes
  three calls, none of them a cache call; the pool-based version of the same function
  makes all six.
\<close>

theorem core_prog_without_cache_steps:
  "core_littlefs_api_prog 0 core_cfg 1 0 [1, 2] 2 =
     ([OSPI_DisableMemoryMappedMode, OSPI_Program 4096 [1, 2] 2, OSPI_EnableMemoryMappedMode], 0)
   \<and> fst (core_littlefs_api_prog 0 core_cfg 1 0 [1, 2] 2) \<noteq> hazard_free_sequence 4096 [1, 2] 2
   \<and> littlefs_api_prog 0 cfg 1 0 [1, 2] 2 = Inr (hazard_free_sequence 4096 [1, 2] 2, 0)"
  by code_simp

section \<open>The one-call write of the first version\<close>

text \<open>
  C10. \<^verbatim>\<open>filesystem_write\<close> of \<^verbatim>\<open>src/Core/Src/filesystem.c\<close> ends at the assertion on
  \<^verbatim>\<open>lfs_file_close\<close> exactly when the earlier assertions hold (clock set, open returned 0,
  write returned the size) and the close returned 0; it runs to its end exactly when they
  hold and the close returned something other than 0.
\<close>

theorem core_write_close_assertion:
  "(snd (core_filesystem_write t open_rc write_rc close_rc path bytes n) = Some Assert_close
      \<longleftrightarrow> t \<noteq> 0 \<and> open_rc = 0 \<and> n = write_rc \<and> close_rc = 0)
   \<and> (snd (core_filesystem_write t open_rc write_rc close_rc path bytes n) = None
      \<longleftrightarrow> t \<noteq> 0 \<and> open_rc = 0 \<and> n = write_rc \<and> close_rc \<noteq> 0)"
  by (simp add: core_filesystem_write_def Let_def)

section \<open>Further properties of the pool-based version\<close>

lemma bit_31_clear: "unat (w :: 32 word) < 2 ^ 31 \<Longrightarrow> \<not> bit w 31"
proof
  assume lt: "unat w < 2 ^ 31" and b: "bit w 31"
  from b have "bit (unat w) 31"
    by (simp add: bit_unsigned_iff)
  then have "odd (unat w div 2 ^ 31)"
    by (simp add: bit_iff_odd_drop_bit drop_bit_eq_div)
  with lt show False
    by simp
qed

lemma signed_shift_of_positive:
  "\<not> bit (w :: 32 word) 31 \<Longrightarrow> signed_drop_bit 12 w = drop_bit 12 w"
  by (rule bit_word_eqI) (auto simp add: bit_simps dest: bit_imp_le_length)

lemma shift_region:
  assumes "filesystem_start \<le> (filesystem_end :: 32 word)"
    and "unat filesystem_end - unat filesystem_start < 2 ^ 31"
  shows "unat (signed_drop_bit 12 (filesystem_end - filesystem_start))
           = (unat filesystem_end - unat filesystem_start) div 4096"
proof -
  have u: "unat (filesystem_end - filesystem_start) = unat filesystem_end - unat filesystem_start"
    using assms(1) by (rule unat_sub)
  with assms(2) have "\<not> bit (filesystem_end - filesystem_start) 31"
    by (simp add: bit_31_clear)
  then have "signed_drop_bit 12 (filesystem_end - filesystem_start)
      = drop_bit 12 (filesystem_end - filesystem_start)"
    by (rule signed_shift_of_positive)
  then show ?thesis
    by (simp add: drop_bit_eq_div unat_div u)
qed

lemma init_mount_calls:
  assumes "x \<in> set (fst (filesystem_init filesystem_end filesystem_start m f r a s))"
    and "\<not> file_level x"
  shows "x = Lfs_mount (cfg\<lparr>block_count := signed_drop_bit 12 (filesystem_end - filesystem_start)\<rparr>)
    \<or> x = Lfs_format (cfg\<lparr>block_count := signed_drop_bit 12 (filesystem_end - filesystem_start)\<rparr>)"
  using assms unfolding filesystem_init_def Let_def
  by (auto dest!: then_traced_calls dest: boot_counter_calls_file_level split: if_splits)

text \<open>
  In the pool-based \<^verbatim>\<open>filesystem_init\<close>, for a region that ends after it starts and
  is smaller than 2 GiB, every mount and format gets block size 4096 and a block count of
  the region's size in bytes divided by 4096; at least one mount is made.
\<close>

theorem filesystem_init_block_count:
  assumes "filesystem_start \<le> filesystem_end"
    and "unat filesystem_end - unat filesystem_start < 2 ^ 31"
  shows "(Lfs_mount c \<in> set (fst (filesystem_init filesystem_end filesystem_start m f r a s))
           \<or> Lfs_format c \<in> set (fst (filesystem_init filesystem_end filesystem_start m f r a s)) \<longrightarrow>
         block_size c = 4096
         \<and> unat (block_count c) = (unat filesystem_end - unat filesystem_start) div 4096)
    \<and> (\<exists>c. Lfs_mount c \<in> set (fst (filesystem_init filesystem_end filesystem_start m f r a s)))"
proof -
  have first: "\<exists>c. Lfs_mount c \<in> set (fst (filesystem_init filesystem_end filesystem_start m f r a s))"
    by (auto simp add: filesystem_init_def Let_def then_traced_def split: prod.splits)
  have "Lfs_mount c \<in> set (fst (filesystem_init filesystem_end filesystem_start m f r a s))
      \<or> Lfs_format c \<in> set (fst (filesystem_init filesystem_end filesystem_start m f r a s)) \<longrightarrow>
      c = cfg\<lparr>block_count := signed_drop_bit 12 (filesystem_end - filesystem_start)\<rparr>"
    using init_mount_calls [of "Lfs_mount c" filesystem_end filesystem_start m f r a s]
      init_mount_calls [of "Lfs_format c" filesystem_end filesystem_start m f r a s]
    by (auto simp add: file_level_def)
  with first shift_region [OF assms] show ?thesis
    by (auto simp add: cfg_def)
qed

theorem filesystem_init_block_count_witness:
  "(0x90100000 :: 32 word) \<le> 0x90200000
   \<and> unat (0x90200000 :: 32 word) - unat (0x90100000 :: 32 word) < 2 ^ 31
   \<and> Lfs_mount (cfg\<lparr>block_count := 256\<rparr>)
       \<in> set (fst (filesystem_init 0x90200000 0x90100000 0 0 0
            \<lparr>first_open_time = 1, first_open_rc = 0, read_result = 4, boot_count_read = 7,
             first_close_rc = 0, second_open_time = 1, second_open_rc = 0, write_result = 4,
             second_close_rc = 0\<rparr> fs_init))
   \<and> block_size (cfg\<lparr>block_count := 256\<rparr>) = 4096
   \<and> unat (block_count (cfg\<lparr>block_count := 256\<rparr>))
       = (unat (0x90200000 :: 32 word) - unat (0x90100000 :: 32 word)) div 4096"
proof -
  have le: "(0x90100000 :: 32 word) \<le> 0x90200000"
    by simp
  have lt: "unat (0x90200000 :: 32 word) - unat (0x90100000 :: 32 word) < 2 ^ 31"
    by simp
  have mem: "Lfs_mount (cfg\<lparr>block_count := 256\<rparr>)
      \<in> set (fst (filesystem_init 0x90200000 0x90100000 0 0 0
           \<lparr>first_open_time = 1, first_open_rc = 0, read_result = 4, boot_count_read = 7,
            first_close_rc = 0, second_open_time = 1, second_open_rc = 0, write_result = 4,
            second_close_rc = 0\<rparr> fs_init))"
    by code_simp
  from filesystem_init_block_count [OF le lt, of "cfg\<lparr>block_count := 256\<rparr>" 0 0 0
      "\<lparr>first_open_time = 1, first_open_rc = 0, read_result = 4, boot_count_read = 7,
        first_close_rc = 0, second_open_time = 1, second_open_rc = 0, write_result = 4,
        second_close_rc = 0\<rparr>" fs_init] mem le lt
  show ?thesis
    by blast
qed

text \<open>
  On a first boot the mount fails, format and second mount succeed, and littlefs answers
  \<^verbatim>\<open>LFS_ERR_NOENT\<close> to the read-mode open of \<^verbatim>\<open>boot_counter\<close>: the initialisation
  stops at the assertion around that open.
\<close>

theorem first_boot_aborts:
  "snd (filesystem_init 0x90200000 0x90100000 (- 1) 0 0
     \<lparr>first_open_time = 1, first_open_rc = LFS_ERR_NOENT, read_result = 0,
      boot_count_read = 0, first_close_rc = 0, second_open_time = 1, second_open_rc = 0,
      write_result = 4, second_close_rc = 0\<rparr> fs_init) = Inl Assert_opencfg"
  by code_simp

text \<open>
  With both bits of the bitmask set, \<^verbatim>\<open>acquire_file_handle\<close> returns \<^verbatim>\<open>NULL\<close> and
  changes nothing, and \<^verbatim>\<open>filesystem_open\<close> returns \<^verbatim>\<open>NULL\<close> without reading the clock
  or calling littlefs.
\<close>

theorem acquire_full_pool:
  assumes a: "file_handles_used_bitmask s AND 3 = 3"
  shows "acquire_file_handle use_compression s = (None, s)
    \<and> filesystem_open t rc path write_mode use_compression s = Inr (NULL, s)"
proof -
  have "bit (file_handles_used_bitmask s AND 3) 0" "bit (file_handles_used_bitmask s AND 3) 1"
    unfolding a by simp_all
  then have b: "bit (file_handles_used_bitmask s) 0" "bit (file_handles_used_bitmask s) 1"
    by (simp_all add: bit_and_iff)
  have n1: "file_handles_used_bitmask s AND 1 \<noteq> 0"
  proof
    assume "file_handles_used_bitmask s AND 1 = 0"
    then have "\<not> bit (file_handles_used_bitmask s AND 1) 0" by simp
    with b show False by (simp add: bit_and_iff)
  qed
  have n2: "file_handles_used_bitmask s AND 2 \<noteq> 0"
  proof
    assume "file_handles_used_bitmask s AND 2 = 0"
    then have "\<not> bit (file_handles_used_bitmask s AND 2) 1" by simp
    with b show False by (simp add: bit_and_iff)
  qed
  from n1 n2 have "acquire_file_handle use_compression s = (None, s)"
    by (simp add: acquire_file_handle_unfold)
  then show ?thesis
    by (simp add: filesystem_open_def filesystem_open_traced_def)
qed

theorem acquire_full_pool_witness:
  "file_handles_used_bitmask (pool_state 3 (- 1)) AND 3 = 3
   \<and> acquire_file_handle False (pool_state 3 (- 1)) = (None, pool_state 3 (- 1))
   \<and> filesystem_open 1 0 ''third'' True False (pool_state 3 (- 1)) = Inr (NULL, pool_state 3 (- 1))"
proof -
  have h: "file_handles_used_bitmask (pool_state 3 (- 1)) AND 3 = 3"
    by (simp add: pool_state_def)
  from acquire_full_pool [OF h, of False 1 0 "''third''" True] h show ?thesis
    by blast
qed

text \<open>
  Releasing a pointer that is the \<^verbatim>\<open>file\<close> member of neither slot runs off the loop
  into \<^verbatim>\<open>assert(0)\<close>.
\<close>

theorem release_untracked_is_fatal:
  "file \<noteq> File_of_handle 0 \<and> file \<noteq> File_of_handle 1 \<longrightarrow>
     release_file_handle file s = Inl Assert_unreachable"
  by (simp add: release_file_handle_unfold)

theorem release_untracked_is_fatal_witness:
  "Foreign_file 7 \<noteq> File_of_handle 0 \<and> Foreign_file 7 \<noteq> File_of_handle 1
   \<and> release_file_handle (Foreign_file 7) fs_init = Inl Assert_unreachable"
  using release_untracked_is_fatal [of "Foreign_file 7" fs_init]
  by simp

text \<open>
  Releasing the handle of slot 0 clears bit 0 of the bitmask and nothing else of it,
  and sets the owner index to \<open>-1\<close> when slot 0 was the owner.
\<close>

theorem release_first_slot:
  "release_file_handle (File_of_handle 0) s =
     Inr (s\<lparr>file_handles_used_bitmask := file_handles_used_bitmask s AND NOT 1,
            file_index_using_compression :=
              (if sint (file_index_using_compression s) = 0 then - 1
               else file_index_using_compression s)\<rparr>)"
  by (simp add: release_file_handle_unfold file_is_using_compression_unfold)

end
